theory Spec2Isabelle
  imports Main
begin

section \<open>Python strings\<close>

text \<open>
  A Python \<^verbatim>\<open>str\<close> is a sequence of code points. The model uses \<^typ>\<open>string\<close>, whose
  characters are the code points 0 to 255; the string methods below are those of CPython
  on that range. \<^verbatim>\<open>None\<close> is \<^term>\<open>None\<close>, so an optional string is a
  \<^typ>\<open>string option\<close>.
\<close>

definition code :: "char \<Rightarrow> nat" where
  "code c = of_char c"

text \<open>\<^verbatim>\<open>str.isspace\<close> on one character: the characters \<^verbatim>\<open>str.strip()\<close> removes.\<close>

definition isspace :: "char \<Rightarrow> bool" where
  "isspace c = (code c \<in> {9, 10, 11, 12, 13, 28, 29, 30, 31, 32, 133, 160})"

definition py_strip :: "string \<Rightarrow> string" where
  "py_strip s = rev (dropWhile isspace (rev (dropWhile isspace s)))"

definition lower_char :: "char \<Rightarrow> char" where
  "lower_char c =
     (let n = code c
      in if (65 \<le> n \<and> n \<le> 90) \<or> (192 \<le> n \<and> n \<le> 222 \<and> n \<noteq> 215)
         then char_of (n + 32) else c)"

definition py_lower :: "string \<Rightarrow> string" where
  "py_lower s = map lower_char s"

text \<open>Truth value of an optional string: \<^verbatim>\<open>None\<close> and the empty string are false.\<close>

definition truthy :: "string option \<Rightarrow> bool" where
  "truthy v = (case v of None \<Rightarrow> False | Some s \<Rightarrow> s \<noteq> [])"

section \<open>Alias lookup\<close>

text \<open>
  \<^verbatim>\<open>
  def pick(env, keys, default=None):
    for key in keys:
      value = env.get(key, "").strip()
      if value:
        return value
    return default
  \<close>
\<close>

type_synonym env = "string \<rightharpoonup> string"

definition env_get :: "env \<Rightarrow> string \<Rightarrow> string \<Rightarrow> string" where
  "env_get env key dflt = (case env key of None \<Rightarrow> dflt | Some v \<Rightarrow> v)"

fun pick :: "env \<Rightarrow> string list \<Rightarrow> string option \<Rightarrow> string option" where
  "pick env [] dflt = dflt"
| "pick env (key # keys) dflt =
     (let value = py_strip (env_get env key [])
      in if value \<noteq> [] then Some value else pick env keys dflt)"

text \<open>The value \<^verbatim>\<open>env.get(key, "").strip()\<close> that the lookup tests for a key.\<close>

definition stripped :: "env \<Rightarrow> string \<Rightarrow> string" where
  "stripped env key = py_strip (env_get env key [])"

section \<open>Tolerant parsing\<close>

text \<open>
  \<^verbatim>\<open>
  def parse_bool(raw, default):
    if raw is None:
      return default
    normalized = raw.strip().lower()
    if normalized in {"1", "true", "yes", "on"}:
      return True
    if normalized in {"0", "false", "no", "off"}:
      return False
    return default
  \<close>
\<close>

definition parse_bool :: "string option \<Rightarrow> bool \<Rightarrow> bool" where
  "parse_bool raw dflt =
     (case raw of
        None \<Rightarrow> dflt
      | Some r \<Rightarrow>
          (let normalized = py_lower (py_strip r)
           in if normalized \<in> {''1'', ''true'', ''yes'', ''on''} then True
              else if normalized \<in> {''0'', ''false'', ''no'', ''off''} then False
              else dflt))"

datatype error = ValueError

text \<open>
  The builtin \<^verbatim>\<open>int(s)\<close> on a string, base 10: surrounding whitespace is skipped
  (a smaller set than \<^verbatim>\<open>str.strip\<close> removes: the separators 28 to 31 are not in it),
  then an optional sign, then decimal digits in which single underscores may stand
  between two digits. A string with more digits than the interpreter's limit (4300 by
  default) raises \<^verbatim>\<open>ValueError\<close>, as does every other string.
\<close>

definition int_isspace :: "char \<Rightarrow> bool" where
  "int_isspace c = (code c \<in> {9, 10, 11, 12, 13, 32, 133, 160})"

definition isdigit :: "char \<Rightarrow> bool" where
  "isdigit c = (48 \<le> code c \<and> code c \<le> 57)"

definition digit_value :: "char \<Rightarrow> nat" where
  "digit_value c = code c - 48"

definition int_max_str_digits :: nat where
  "int_max_str_digits = 4300"

text \<open>
  The scan of the digits, with the previous character: an underscore is refused at the
  start, after another underscore and at the end.
\<close>

fun digits_ok :: "char \<Rightarrow> string \<Rightarrow> bool" where
  "digits_ok prev [] = (prev \<noteq> CHR ''_'')"
| "digits_ok prev (c # cs) =
     (if c = CHR ''_'' then prev \<noteq> CHR ''_'' \<and> digits_ok c cs
      else isdigit c \<and> digits_ok c cs)"

definition digits_value :: "string \<Rightarrow> nat" where
  "digits_value ds = foldl (\<lambda>a c. 10 * a + digit_value c) 0 ds"

definition py_int :: "string \<Rightarrow> error + int" where
  "py_int s =
     (let t = rev (dropWhile int_isspace (rev (dropWhile int_isspace s)));
          neg = (t \<noteq> [] \<and> hd t = CHR ''-'');
          body = (if t \<noteq> [] \<and> (hd t = CHR ''-'' \<or> hd t = CHR ''+'') then tl t else t);
          ds = filter (\<lambda>c. c \<noteq> CHR ''_'') body
      in if body = [] \<or> hd body = CHR ''_'' \<or> \<not> digits_ok (CHR 0x00) body then Inl ValueError
         else if int_max_str_digits < length ds then Inl ValueError
         else Inr (if neg then - int (digits_value ds) else int (digits_value ds)))"

text \<open>
  \<^verbatim>\<open>
  def parse_int(raw, default):
    if raw is None:
      return default
    try:
      return int(raw.strip())
    except Exception:
      return default
  \<close>
\<close>

definition parse_int :: "string option \<Rightarrow> int \<Rightarrow> int" where
  "parse_int raw dflt =
     (case raw of
        None \<Rightarrow> dflt
      | Some r \<Rightarrow> (case py_int (py_strip r) of Inl e \<Rightarrow> dflt | Inr v \<Rightarrow> v))"

text \<open>\<^verbatim>\<open>str(n)\<close> of an integer, as the f-string of the detail line formats it.\<close>

fun str_nat :: "nat \<Rightarrow> string" where
  "str_nat n = (if n < 10 then [char_of (48 + n)] else str_nat (n div 10) @ [char_of (48 + n mod 10)])"

declare str_nat.simps [simp del]

definition str_int :: "int \<Rightarrow> string" where
  "str_int i = (if i < 0 then CHR ''-'' # str_nat (nat (- i)) else str_nat (nat i))"

definition str_bool_lower :: "bool \<Rightarrow> string" where
  "str_bool_lower b = py_lower (if b then ''True'' else ''False'')"

section \<open>URL parsing\<close>

text \<open>
  \<^verbatim>\<open>urllib.parse.urlparse\<close> of the standard library (CPython 3.12), on a string. It
  raises \<^verbatim>\<open>ValueError\<close> when the network location holds an unmatched bracket, and when
  it holds both brackets and the library's check of the bracketed host refuses it. That
  last check parses IP literals and differs between releases; it is the parameter
  \<open>bracketed_ok\<close>, true when the check passes. The library's check of the network
  location under NFKC normalisation never raises on code points below 256 and is left out.
\<close>

record SplitResult =
  scheme :: string
  netloc :: string
  path :: string
  query :: string
  fragment :: string

record ParseResult = SplitResult +
  params :: string

definition ascii_alpha :: "char \<Rightarrow> bool" where
  "ascii_alpha c = ((65 \<le> code c \<and> code c \<le> 90) \<or> (97 \<le> code c \<and> code c \<le> 122))"

definition scheme_char :: "char \<Rightarrow> bool" where
  "scheme_char c = (ascii_alpha c \<or> isdigit c \<or> c \<in> {CHR ''+'', CHR ''-'', CHR ''.''})"

text \<open>\<^verbatim>\<open>s.split(c, 1)\<close> for a string that holds \<open>c\<close>: the parts before and after the first one.\<close>

definition split_first :: "char \<Rightarrow> string \<Rightarrow> string \<times> string" where
  "split_first c s = (takeWhile (\<lambda>x. x \<noteq> c) s, drop 1 (dropWhile (\<lambda>x. x \<noteq> c) s))"

definition splitnetloc :: "string \<Rightarrow> nat \<Rightarrow> string \<times> string" where
  "splitnetloc url start =
     (let body = drop start url;
          inside = (\<lambda>c. c \<notin> {CHR ''/'', CHR ''?'', CHR ''#''})
      in (takeWhile inside body, dropWhile inside body))"

definition split_rest :: "string \<Rightarrow> string \<Rightarrow> string \<Rightarrow> SplitResult" where
  "split_rest sch loc url =
     (let (url1, frag) = (if CHR ''#'' \<in> set url then split_first (CHR ''#'') url else (url, []));
          (url2, qry) = (if CHR ''?'' \<in> set url1 then split_first (CHR ''?'') url1 else (url1, []))
      in \<lparr>scheme = sch, netloc = loc, path = url2, query = qry, fragment = frag\<rparr>)"

definition urlsplit :: "(string \<Rightarrow> bool) \<Rightarrow> string \<Rightarrow> error + SplitResult" where
  "urlsplit bracketed_ok raw =
     (let url0 = dropWhile (\<lambda>c. code c \<le> 32) raw;
          url1 = filter (\<lambda>c. c \<notin> {CHR 0x09, CHR 0x0D, CHR 0x0A}) url0;
          pre = takeWhile (\<lambda>c. c \<noteq> CHR '':'') url1;
          has_scheme = (CHR '':'' \<in> set url1 \<and> pre \<noteq> [] \<and> ascii_alpha (hd pre)
                        \<and> list_all scheme_char pre);
          sch = (if has_scheme then py_lower pre else []);
          url2 = (if has_scheme then drop (length pre + 1) url1 else url1)
      in if take 2 url2 = ''//'' then
           (let (loc, url3) = splitnetloc url2 2;
                lb = (CHR ''['' \<in> set loc);
                rb = (CHR '']'' \<in> set loc)
            in if (lb \<and> \<not> rb) \<or> (rb \<and> \<not> lb) then Inl ValueError
               else if lb \<and> rb \<and> \<not> bracketed_ok loc then Inl ValueError
               else Inr (split_rest sch loc url3))
         else Inr (split_rest sch [] url2))"

definition uses_params :: "string list" where
  "uses_params = ['''', ''ftp'', ''hdl'', ''prospero'', ''http'', ''imap'',
                  ''https'', ''shttp'', ''rtsp'', ''rtsps'', ''rtspu'', ''sip'',
                  ''sips'', ''mms'', ''sftp'', ''tel'']"

text \<open>The parameters of the last path segment, for a path that holds a semicolon.\<close>

definition splitparams :: "string \<Rightarrow> string \<times> string" where
  "splitparams url =
     (if CHR ''/'' \<in> set url then
        (let k = length url - 1 - length (takeWhile (\<lambda>c. c \<noteq> CHR ''/'') (rev url));
             seg = drop k url
         in if CHR '';'' \<in> set seg
            then (take k url @ fst (split_first (CHR '';'') seg), snd (split_first (CHR '';'') seg))
            else (url, []))
      else split_first (CHR '';'') url)"

definition urlparse :: "(string \<Rightarrow> bool) \<Rightarrow> string \<Rightarrow> error + ParseResult" where
  "urlparse bracketed_ok url =
     (case urlsplit bracketed_ok url of
        Inl e \<Rightarrow> Inl e
      | Inr r \<Rightarrow>
          (let (url1, prm) = (if scheme r \<in> set uses_params \<and> CHR '';'' \<in> set (path r)
                              then splitparams (path r) else (path r, []))
           in Inr \<lparr>scheme = scheme r, netloc = netloc r, path = url1,
                    query = query r, fragment = fragment r, params = prm\<rparr>))"

text \<open>
  \<^verbatim>\<open>
  def valid_url(raw):
    parsed = urlparse(raw)
    return bool(parsed.scheme and parsed.netloc)
  \<close>
\<close>

definition valid_url :: "(string \<Rightarrow> bool) \<Rightarrow> string \<Rightarrow> error + bool" where
  "valid_url bracketed_ok raw =
     (case urlparse bracketed_ok raw of
        Inl e \<Rightarrow> Inl e
      | Inr parsed \<Rightarrow> Inr (scheme parsed \<noteq> [] \<and> netloc parsed \<noteq> []))"

text \<open>
  An instance of the parameter of \<^const>\<open>urlsplit\<close>: a library that accepts every bracketed
  host, as the releases before the check was added do.
\<close>

definition accept_bracketed :: "string \<Rightarrow> bool" where
  "accept_bracketed loc = True"

text \<open>
  A character that may stand in a network location without ending it, opening a bracketed
  host or being removed before the split.
\<close>

definition authority_char :: "char \<Rightarrow> bool" where
  "authority_char c =
     (c \<notin> {CHR ''/'', CHR ''?'', CHR ''#'', CHR ''['', CHR '']'', CHR 0x09, CHR 0x0A, CHR 0x0D})"

section \<open>The validator\<close>

record CheckResult =
  name :: string
  ok :: bool
  detail :: string

text \<open>
  The settings \<^verbatim>\<open>run_checks\<close> resolves, each under the name of its local variable:
  \<^verbatim>\<open>
  expert_mode = (pick(env, ["OPENFINCLAW_FIN_EXPERT_MODE", "FIN_EXPERT_SDK_MODE"], "stub") or "stub").lower()
  info_mode = (pick(env, ["OPENFINCLAW_FIN_INFO_MODE", "FIN_INFO_FEED_MODE"], "stub") or "stub").lower()
  expert_key = pick(env, ["OPENFINCLAW_FIN_EXPERT_API_KEY", "FIN_EXPERT_SDK_API_KEY"])
  expert_endpoint = pick(env, ["OPENFINCLAW_FIN_EXPERT_ENDPOINT", "FIN_EXPERT_SDK_ENDPOINT"])
  info_key = pick(env, ["OPENFINCLAW_FIN_INFO_API_KEY", "FIN_INFO_FEED_API_KEY"])
  info_endpoint = pick(env, ["OPENFINCLAW_FIN_INFO_ENDPOINT", "FIN_INFO_FEED_ENDPOINT"])
  monitoring_enabled = parse_bool(pick(env,
    ["OPENFINCLAW_FIN_MONITORING_AUTO_EVALUATE", "FIN_MONITORING_AUTO_EVALUATE"]), True)
  monitoring_poll = parse_int(pick(env,
    ["OPENFINCLAW_FIN_MONITORING_POLL_INTERVAL_MS", "FIN_MONITORING_POLL_INTERVAL_MS"]), 300_000)
  \<close>
\<close>

text \<open>\<^verbatim>\<open>v or d\<close> on an optional string.\<close>

definition or_else :: "string option \<Rightarrow> string \<Rightarrow> string" where
  "or_else v d = (case v of None \<Rightarrow> d | Some s \<Rightarrow> if s \<noteq> [] then s else d)"

definition expert_mode :: "env \<Rightarrow> string" where
  "expert_mode env =
     py_lower (or_else (pick env [''OPENFINCLAW_FIN_EXPERT_MODE'', ''FIN_EXPERT_SDK_MODE'']
                          (Some ''stub'')) ''stub'')"

definition info_mode :: "env \<Rightarrow> string" where
  "info_mode env =
     py_lower (or_else (pick env [''OPENFINCLAW_FIN_INFO_MODE'', ''FIN_INFO_FEED_MODE'']
                          (Some ''stub'')) ''stub'')"

definition expert_key :: "env \<Rightarrow> string option" where
  "expert_key env = pick env [''OPENFINCLAW_FIN_EXPERT_API_KEY'', ''FIN_EXPERT_SDK_API_KEY''] None"

definition expert_endpoint :: "env \<Rightarrow> string option" where
  "expert_endpoint env =
     pick env [''OPENFINCLAW_FIN_EXPERT_ENDPOINT'', ''FIN_EXPERT_SDK_ENDPOINT''] None"

definition info_key :: "env \<Rightarrow> string option" where
  "info_key env = pick env [''OPENFINCLAW_FIN_INFO_API_KEY'', ''FIN_INFO_FEED_API_KEY''] None"

definition info_endpoint :: "env \<Rightarrow> string option" where
  "info_endpoint env =
     pick env [''OPENFINCLAW_FIN_INFO_ENDPOINT'', ''FIN_INFO_FEED_ENDPOINT''] None"

definition monitoring_enabled :: "env \<Rightarrow> bool" where
  "monitoring_enabled env =
     parse_bool (pick env [''OPENFINCLAW_FIN_MONITORING_AUTO_EVALUATE'',
                           ''FIN_MONITORING_AUTO_EVALUATE''] None) True"

definition monitoring_poll :: "env \<Rightarrow> int" where
  "monitoring_poll env =
     parse_int (pick env [''OPENFINCLAW_FIN_MONITORING_POLL_INTERVAL_MS'',
                          ''FIN_MONITORING_POLL_INTERVAL_MS''] None) 300000"

text \<open>
  The expression \<^verbatim>\<open>bool(key) and bool(endpoint) and valid_url(endpoint)\<close>: the URL is
  parsed only when both values are there, and an exception of the parser leaves the
  expression.
\<close>

definition credentials_ok ::
  "(string \<Rightarrow> bool) \<Rightarrow> string option \<Rightarrow> string option \<Rightarrow> error + bool" where
  "credentials_ok bracketed_ok key endpoint =
     (case endpoint of
        None \<Rightarrow> Inr False
      | Some url \<Rightarrow> if truthy key \<and> url \<noteq> [] then valid_url bracketed_ok url else Inr False)"

text \<open>
  The body of \<^verbatim>\<open>run_checks\<close> works on the two lists \<^verbatim>\<open>results\<close> and
  \<^verbatim>\<open>errors\<close>; each of its blocks is a step on that pair. Lines 84 to 90, the modes:
\<close>

type_synonym acc = "CheckResult list \<times> string list"

definition valid_mode :: "string \<Rightarrow> bool" where
  "valid_mode m = (m \<in> {''stub'', ''live''})"

definition check_modes :: "env \<Rightarrow> acc \<Rightarrow> acc" where
  "check_modes env a =
     (let (results, errors) = a;
          errors1 = (if \<not> valid_mode (expert_mode env)
                     then errors @ [''Invalid expert mode: '' @ expert_mode env @ '' (expected stub/live)'']
                     else errors);
          errors2 = (if \<not> valid_mode (info_mode env)
                     then errors1 @ [''Invalid info mode: '' @ info_mode env @ '' (expected stub/live)'']
                     else errors1);
          results1 = results @ [\<lparr>name = ''expert.mode'', ok = valid_mode (expert_mode env),
                                 detail = expert_mode env\<rparr>];
          results2 = results1 @ [\<lparr>name = ''info.mode'', ok = valid_mode (info_mode env),
                                  detail = info_mode env\<rparr>]
      in (results2, errors2))"

text \<open>Lines 97 to 103, the expert credentials:\<close>

definition check_expert_credentials :: "(string \<Rightarrow> bool) \<Rightarrow> env \<Rightarrow> acc \<Rightarrow> error + acc" where
  "check_expert_credentials bracketed_ok env a =
     (let (results, errors) = a
      in if expert_mode env = ''live'' then
           (case credentials_ok bracketed_ok (expert_key env) (expert_endpoint env) of
              Inl e \<Rightarrow> Inl e
            | Inr v \<Rightarrow>
                Inr (results @ [\<lparr>name = ''expert.live_credentials'', ok = v,
                                  detail = ''apiKey+endpoint required in live mode''\<rparr>],
                     if \<not> v
                     then errors @ [''Expert live mode requires FIN_EXPERT_SDK_API_KEY and FIN_EXPERT_SDK_ENDPOINT (valid URL)'']
                     else errors))
         else Inr (results @ [\<lparr>name = ''expert.live_credentials'', ok = True,
                                detail = ''stub mode''\<rparr>], errors))"

text \<open>Lines 105 to 111, the info credentials:\<close>

definition check_info_credentials :: "(string \<Rightarrow> bool) \<Rightarrow> env \<Rightarrow> acc \<Rightarrow> error + acc" where
  "check_info_credentials bracketed_ok env a =
     (let (results, errors) = a
      in if info_mode env = ''live'' then
           (case credentials_ok bracketed_ok (info_key env) (info_endpoint env) of
              Inl e \<Rightarrow> Inl e
            | Inr v \<Rightarrow>
                Inr (results @ [\<lparr>name = ''info.live_credentials'', ok = v,
                                  detail = ''apiKey+endpoint required in live mode''\<rparr>],
                     if \<not> v
                     then errors @ [''Info live mode requires FIN_INFO_FEED_API_KEY and FIN_INFO_FEED_ENDPOINT (valid URL)'']
                     else errors))
         else Inr (results @ [\<lparr>name = ''info.live_credentials'', ok = True,
                                detail = ''stub mode''\<rparr>], errors))"

text \<open>Lines 113 to 136, the monitoring interval:\<close>

definition check_monitoring :: "env \<Rightarrow> acc \<Rightarrow> acc" where
  "check_monitoring env a =
     (let (results, errors) = a;
          monitoring_ok = (10000 \<le> monitoring_poll env);
          results1 = results @ [\<lparr>name = ''monitoring.poll_interval_ms'', ok = monitoring_ok,
                                 detail = str_int (monitoring_poll env) @ '' (autoEvaluate=''
                                          @ str_bool_lower (monitoring_enabled env) @ '')''\<rparr>];
          errors1 = (if \<not> monitoring_ok
                     then errors @ [''Monitoring poll interval must be >= 10000 ms'']
                     else errors)
      in (results1, errors1))"

definition run_checks :: "(string \<Rightarrow> bool) \<Rightarrow> env \<Rightarrow> error + acc" where
  "run_checks bracketed_ok env =
     (case check_expert_credentials bracketed_ok env (check_modes env ([], [])) of
        Inl e \<Rightarrow> Inl e
      | Inr a \<Rightarrow>
          (case check_info_credentials bracketed_ok env a of
             Inl e \<Rightarrow> Inl e
           | Inr b \<Rightarrow> Inr (check_monitoring env b)))"

section \<open>The outcome of a run, check by check\<close>

text \<open>
  The outcome of each credentials check as a value of its own: outside live mode the check
  passes without looking at the credentials.
\<close>

definition expert_credentials :: "(string \<Rightarrow> bool) \<Rightarrow> env \<Rightarrow> error + bool" where
  "expert_credentials bracketed_ok env =
     (if expert_mode env = ''live''
      then credentials_ok bracketed_ok (expert_key env) (expert_endpoint env) else Inr True)"

definition info_credentials :: "(string \<Rightarrow> bool) \<Rightarrow> env \<Rightarrow> error + bool" where
  "info_credentials bracketed_ok env =
     (if info_mode env = ''live''
      then credentials_ok bracketed_ok (info_key env) (info_endpoint env) else Inr True)"

definition credentials_detail :: "string \<Rightarrow> string" where
  "credentials_detail m =
     (if m = ''live'' then ''apiKey+endpoint required in live mode'' else ''stub mode'')"

definition results_of :: "env \<Rightarrow> bool \<Rightarrow> bool \<Rightarrow> CheckResult list" where
  "results_of env ev iv =
     [\<lparr>name = ''expert.mode'', ok = valid_mode (expert_mode env), detail = expert_mode env\<rparr>,
      \<lparr>name = ''info.mode'', ok = valid_mode (info_mode env), detail = info_mode env\<rparr>,
      \<lparr>name = ''expert.live_credentials'', ok = ev,
        detail = credentials_detail (expert_mode env)\<rparr>,
      \<lparr>name = ''info.live_credentials'', ok = iv,
        detail = credentials_detail (info_mode env)\<rparr>,
      \<lparr>name = ''monitoring.poll_interval_ms'', ok = (10000 \<le> monitoring_poll env),
        detail = str_int (monitoring_poll env) @ '' (autoEvaluate=''
                 @ str_bool_lower (monitoring_enabled env) @ '')''\<rparr>]"

definition errors_of :: "env \<Rightarrow> bool \<Rightarrow> bool \<Rightarrow> string list" where
  "errors_of env ev iv =
     (if valid_mode (expert_mode env) then []
      else [''Invalid expert mode: '' @ expert_mode env @ '' (expected stub/live)''])
     @ (if valid_mode (info_mode env) then []
        else [''Invalid info mode: '' @ info_mode env @ '' (expected stub/live)''])
     @ (if ev then []
        else [''Expert live mode requires FIN_EXPERT_SDK_API_KEY and FIN_EXPERT_SDK_ENDPOINT (valid URL)''])
     @ (if iv then []
        else [''Info live mode requires FIN_INFO_FEED_API_KEY and FIN_INFO_FEED_ENDPOINT (valid URL)''])
     @ (if 10000 \<le> monitoring_poll env then []
        else [''Monitoring poll interval must be >= 10000 ms''])"

text \<open>
  The error message that belongs to a failing check, read off the check's name and detail.
\<close>

definition error_of_check :: "CheckResult \<Rightarrow> string" where
  "error_of_check r =
     (if name r = ''expert.mode'' then ''Invalid expert mode: '' @ detail r @ '' (expected stub/live)''
      else if name r = ''info.mode'' then ''Invalid info mode: '' @ detail r @ '' (expected stub/live)''
      else if name r = ''expert.live_credentials''
        then ''Expert live mode requires FIN_EXPERT_SDK_API_KEY and FIN_EXPERT_SDK_ENDPOINT (valid URL)''
      else if name r = ''info.live_credentials''
        then ''Info live mode requires FIN_INFO_FEED_API_KEY and FIN_INFO_FEED_ENDPOINT (valid URL)''
      else ''Monitoring poll interval must be >= 10000 ms'')"

section \<open>Each block of the validator, as an equation\<close>

lemma check_modes_eq:
  "check_modes env (rs, es) =
     (rs @ [\<lparr>name = ''expert.mode'', ok = valid_mode (expert_mode env), detail = expert_mode env\<rparr>,
            \<lparr>name = ''info.mode'', ok = valid_mode (info_mode env), detail = info_mode env\<rparr>],
      es @ (if valid_mode (expert_mode env) then []
            else [''Invalid expert mode: '' @ expert_mode env @ '' (expected stub/live)''])
         @ (if valid_mode (info_mode env) then []
            else [''Invalid info mode: '' @ info_mode env @ '' (expected stub/live)'']))"
  by (simp add: check_modes_def)

lemma check_expert_credentials_eq:
  "check_expert_credentials chk env (rs, es) =
     (case expert_credentials chk env of
        Inl e \<Rightarrow> Inl e
      | Inr ev \<Rightarrow>
          Inr (rs @ [\<lparr>name = ''expert.live_credentials'', ok = ev,
                      detail = credentials_detail (expert_mode env)\<rparr>],
               es @ (if ev then []
                     else [''Expert live mode requires FIN_EXPERT_SDK_API_KEY and FIN_EXPERT_SDK_ENDPOINT (valid URL)''])))"
  by (simp add: check_expert_credentials_def expert_credentials_def credentials_detail_def
      split: sum.splits)

lemma check_info_credentials_eq:
  "check_info_credentials chk env (rs, es) =
     (case info_credentials chk env of
        Inl e \<Rightarrow> Inl e
      | Inr iv \<Rightarrow>
          Inr (rs @ [\<lparr>name = ''info.live_credentials'', ok = iv,
                      detail = credentials_detail (info_mode env)\<rparr>],
               es @ (if iv then []
                     else [''Info live mode requires FIN_INFO_FEED_API_KEY and FIN_INFO_FEED_ENDPOINT (valid URL)''])))"
  by (simp add: check_info_credentials_def info_credentials_def credentials_detail_def
      split: sum.splits)

lemma check_monitoring_eq:
  "check_monitoring env (rs, es) =
     (rs @ [\<lparr>name = ''monitoring.poll_interval_ms'', ok = (10000 \<le> monitoring_poll env),
             detail = str_int (monitoring_poll env) @ '' (autoEvaluate=''
                      @ str_bool_lower (monitoring_enabled env) @ '')''\<rparr>],
      es @ (if 10000 \<le> monitoring_poll env then []
            else [''Monitoring poll interval must be >= 10000 ms'']))"
  by (simp add: check_monitoring_def)

text \<open>
  A run raises exactly when one of the two credentials checks does; otherwise it returns
  the five results and the errors of the failing checks.
\<close>

lemma run_checks_outcome:
  "run_checks chk env =
     (case expert_credentials chk env of
        Inl e \<Rightarrow> Inl e
      | Inr ev \<Rightarrow>
          (case info_credentials chk env of
             Inl e \<Rightarrow> Inl e
           | Inr iv \<Rightarrow> Inr (results_of env ev iv, errors_of env ev iv)))"
  by (simp add: run_checks_def check_modes_eq check_expert_credentials_eq
      check_info_credentials_eq check_monitoring_eq results_of_def errors_of_def
      split: sum.splits)

lemma run_checks_Inr:
  assumes "run_checks chk env = Inr (results, errors)"
  obtains ev iv where "expert_credentials chk env = Inr ev"
    and "info_credentials chk env = Inr iv"
    and "results = results_of env ev iv"
    and "errors = errors_of env ev iv"
  using assms unfolding run_checks_outcome by (auto split: sum.splits)

lemma run_checks_names:
  "run_checks chk env = Inr (results, errors) \<Longrightarrow>
     map name results = [''expert.mode'', ''info.mode'', ''expert.live_credentials'',
                         ''info.live_credentials'', ''monitoring.poll_interval_ms'']"
  by (erule run_checks_Inr) (simp add: results_of_def)

text \<open>
  The validator raises exactly when a credentials check does, that is, when a mode is
  \<open>live\<close>, its key and endpoint are there, and the parser raises on the endpoint.
\<close>

lemma credentials_ok_raises_iff:
  "credentials_ok chk key endpoint = Inl e
     \<longleftrightarrow> truthy key \<and> (\<exists>url. endpoint = Some url \<and> url \<noteq> [] \<and> urlparse chk url = Inl e)"
  by (auto simp: credentials_ok_def valid_url_def split: option.splits sum.splits)

lemma run_checks_raises_iff:
  "run_checks chk env = Inl e
     \<longleftrightarrow> (expert_mode env = ''live''
          \<and> credentials_ok chk (expert_key env) (expert_endpoint env) = Inl e)
        \<or> (info_mode env = ''live''
            \<and> credentials_ok chk (info_key env) (info_endpoint env) = Inl e
            \<and> (expert_mode env = ''live'' \<longrightarrow>
                 (\<exists>v. credentials_ok chk (expert_key env) (expert_endpoint env) = Inr v)))"
  by (cases e)
    (auto simp: run_checks_outcome expert_credentials_def info_credentials_def
      split: sum.splits error.splits)

text \<open>The definitions a concrete run unfolds, by layer.\<close>

lemmas string_defs = py_strip_def isspace_def code_def py_lower_def lower_char_def
  char_of_eq_iff env_get_def truthy_def or_else_def stripped_def

lemmas int_defs = parse_int_def py_int_def int_isspace_def isdigit_def digits_value_def
  digit_value_def int_max_str_digits_def str_int_def str_nat.simps str_bool_lower_def
  parse_bool_def

lemmas url_defs = valid_url_def urlparse_def urlsplit_def split_rest_def splitnetloc_def
  split_first_def ascii_alpha_def scheme_char_def uses_params_def splitparams_def Let_def

lemmas setting_defs = expert_mode_def info_mode_def expert_key_def expert_endpoint_def
  info_key_def info_endpoint_def monitoring_enabled_def monitoring_poll_def

lemmas check_defs = run_checks_def check_modes_def check_expert_credentials_def
  check_info_credentials_def check_monitoring_def credentials_ok_def valid_mode_def
  accept_bracketed_def

section \<open>Parsed integers stay within the digit limit\<close>

text \<open>
  The builtin \<^verbatim>\<open>str\<close> raises on an integer of more decimal digits than the limit. An
  integer that \<^const>\<open>py_int\<close> returns has no more digits than the limit, so the detail
  line of the monitoring check can always be formatted and \<^const>\<open>str_int\<close> is total.
\<close>

lemma digits_ok_chars:
  "digits_ok prev body \<Longrightarrow> c \<in> set body \<Longrightarrow> isdigit c \<or> c = CHR ''_''"
  by (induction prev body rule: digits_ok.induct) (auto split: if_splits)

lemma digits_value_snoc:
  "digits_value (ds @ [c]) = 10 * digits_value ds + digit_value c"
  by (simp add: digits_value_def)

lemma digits_value_bound:
  "\<forall>c \<in> set ds. isdigit c \<Longrightarrow> digits_value ds < 10 ^ length ds"
proof (induction ds rule: rev_induct)
  case Nil
  then show ?case by (simp add: digits_value_def)
next
  case (snoc c ds)
  then have "digits_value ds < 10 ^ length ds" and "digit_value c \<le> 9"
    by (auto simp: isdigit_def digit_value_def)
  then show ?case
    by (simp add: digits_value_snoc)
qed

lemma py_int_bound:
  assumes "py_int s = Inr v"
  shows "\<bar>v\<bar> < 10 ^ int_max_str_digits"
proof -
  define t where "t = rev (dropWhile int_isspace (rev (dropWhile int_isspace s)))"
  define body where
    "body = (if t \<noteq> [] \<and> (hd t = CHR ''-'' \<or> hd t = CHR ''+'') then tl t else t)"
  define ds where "ds = filter (\<lambda>c. c \<noteq> CHR ''_'') body"
  have unfolded: "py_int s =
      (if body = [] \<or> hd body = CHR ''_'' \<or> \<not> digits_ok (CHR 0x00) body then Inl ValueError
       else if int_max_str_digits < length ds then Inl ValueError
       else Inr (if t \<noteq> [] \<and> hd t = CHR ''-'' then - int (digits_value ds)
                 else int (digits_value ds)))"
    by (simp only: py_int_def Let_def t_def body_def ds_def)
  from assms have ok: "digits_ok (CHR 0x00) body" and len: "length ds \<le> int_max_str_digits"
    and v: "\<bar>v\<bar> = int (digits_value ds)"
    unfolding unfolded by (auto split: if_splits)
  have "\<forall>c \<in> set ds. isdigit c"
    using digits_ok_chars [OF ok] by (auto simp: ds_def)
  then have "digits_value ds < 10 ^ length ds"
    by (rule digits_value_bound)
  also have "\<dots> \<le> 10 ^ int_max_str_digits"
    using len by (simp add: power_increasing)
  finally have "int (digits_value ds) < int (10 ^ int_max_str_digits)"
    by (simp only: of_nat_less_iff)
  then show ?thesis
    by (simp add: v)
qed

lemma monitoring_poll_bound: "\<bar>monitoring_poll env\<bar> < 10 ^ int_max_str_digits"
proof -
  have "(300000::int) < 10 ^ 6"
    by simp
  also have "(10::int) ^ 6 \<le> 10 ^ int_max_str_digits"
    by (rule power_increasing) (simp_all add: int_max_str_digits_def)
  finally have dflt: "\<bar>300000::int\<bar> < 10 ^ int_max_str_digits"
    by simp
  show ?thesis
    using dflt py_int_bound
    by (auto simp: monitoring_poll_def parse_int_def split: option.splits sum.splits)
qed

section \<open>The first alias that is not blank wins\<close>

lemma pick_find:
  "pick env keys dflt =
     (case find (\<lambda>k. stripped env k \<noteq> []) keys of
        None \<Rightarrow> dflt
      | Some k \<Rightarrow> Some (stripped env k))"
  by (induction keys) (simp_all add: Let_def stripped_def)

text \<open>
  Claim C6. The lookup walks the keys in the order given and returns the trimmed value of
  the first key whose value is not blank, and the default when every key is blank or
  absent. With the two aliases of a setting, a namespaced value that is not blank wins
  over any legacy value, the legacy value is used when the namespaced one is blank, and
  each of the eight settings of the validator is looked up with its namespaced alias first.
\<close>

theorem pick_first_nonblank_alias:
  "pick env keys dflt =
     (case find (\<lambda>k. stripped env k \<noteq> []) keys of
        None \<Rightarrow> dflt
      | Some k \<Rightarrow> Some (stripped env k))
   \<and> (stripped env ns \<noteq> [] \<longrightarrow> pick env [ns, legacy] dflt = Some (stripped env ns))
   \<and> (stripped env ns = [] \<and> stripped env legacy \<noteq> [] \<longrightarrow>
        pick env [ns, legacy] dflt = Some (stripped env legacy))
   \<and> (stripped env ns = [] \<and> stripped env legacy = [] \<longrightarrow> pick env [ns, legacy] dflt = dflt)
   \<and> (stripped env ''OPENFINCLAW_FIN_EXPERT_MODE'' \<noteq> [] \<longrightarrow>
        expert_mode env = py_lower (stripped env ''OPENFINCLAW_FIN_EXPERT_MODE''))
   \<and> (stripped env ''OPENFINCLAW_FIN_INFO_MODE'' \<noteq> [] \<longrightarrow>
        info_mode env = py_lower (stripped env ''OPENFINCLAW_FIN_INFO_MODE''))
   \<and> (stripped env ''OPENFINCLAW_FIN_EXPERT_API_KEY'' \<noteq> [] \<longrightarrow>
        expert_key env = Some (stripped env ''OPENFINCLAW_FIN_EXPERT_API_KEY''))
   \<and> (stripped env ''OPENFINCLAW_FIN_EXPERT_ENDPOINT'' \<noteq> [] \<longrightarrow>
        expert_endpoint env = Some (stripped env ''OPENFINCLAW_FIN_EXPERT_ENDPOINT''))
   \<and> (stripped env ''OPENFINCLAW_FIN_INFO_API_KEY'' \<noteq> [] \<longrightarrow>
        info_key env = Some (stripped env ''OPENFINCLAW_FIN_INFO_API_KEY''))
   \<and> (stripped env ''OPENFINCLAW_FIN_INFO_ENDPOINT'' \<noteq> [] \<longrightarrow>
        info_endpoint env = Some (stripped env ''OPENFINCLAW_FIN_INFO_ENDPOINT''))
   \<and> (stripped env ''OPENFINCLAW_FIN_MONITORING_AUTO_EVALUATE'' \<noteq> [] \<longrightarrow>
        monitoring_enabled env
          = parse_bool (Some (stripped env ''OPENFINCLAW_FIN_MONITORING_AUTO_EVALUATE'')) True)
   \<and> (stripped env ''OPENFINCLAW_FIN_MONITORING_POLL_INTERVAL_MS'' \<noteq> [] \<longrightarrow>
        monitoring_poll env
          = parse_int (Some (stripped env ''OPENFINCLAW_FIN_MONITORING_POLL_INTERVAL_MS'')) 300000)"
proof -
  have two: "pick env [a, b] d =
      (if stripped env a \<noteq> [] then Some (stripped env a)
       else if stripped env b \<noteq> [] then Some (stripped env b) else d)" for a b d
    by (simp add: Let_def stripped_def)
  show ?thesis
    unfolding setting_defs two by (simp add: pick_find or_else_def)
qed

theorem pick_first_nonblank_alias_witness:
  "expert_mode
     [''OPENFINCLAW_FIN_EXPERT_MODE'' \<mapsto> '' Live '', ''FIN_EXPERT_SDK_MODE'' \<mapsto> ''stub'',
      ''OPENFINCLAW_FIN_INFO_MODE'' \<mapsto> ''live'', ''FIN_INFO_FEED_MODE'' \<mapsto> ''stub'',
      ''OPENFINCLAW_FIN_EXPERT_API_KEY'' \<mapsto> ''new'', ''FIN_EXPERT_SDK_API_KEY'' \<mapsto> ''old'',
      ''OPENFINCLAW_FIN_EXPERT_ENDPOINT'' \<mapsto> ''https://new'', ''FIN_EXPERT_SDK_ENDPOINT'' \<mapsto> ''https://old'',
      ''OPENFINCLAW_FIN_INFO_API_KEY'' \<mapsto> ''new'', ''FIN_INFO_FEED_API_KEY'' \<mapsto> ''old'',
      ''OPENFINCLAW_FIN_INFO_ENDPOINT'' \<mapsto> ''https://new'', ''FIN_INFO_FEED_ENDPOINT'' \<mapsto> ''https://old'',
      ''OPENFINCLAW_FIN_MONITORING_AUTO_EVALUATE'' \<mapsto> ''off'', ''FIN_MONITORING_AUTO_EVALUATE'' \<mapsto> ''on'',
      ''OPENFINCLAW_FIN_MONITORING_POLL_INTERVAL_MS'' \<mapsto> ''20000'',
      ''FIN_MONITORING_POLL_INTERVAL_MS'' \<mapsto> ''10''] = ''live''
   \<and> pick [''OPENFINCLAW_FIN_EXPERT_MODE'' \<mapsto> ''live'', ''FIN_EXPERT_SDK_MODE'' \<mapsto> ''stub'']
        [''OPENFINCLAW_FIN_EXPERT_MODE'', ''FIN_EXPERT_SDK_MODE''] (Some ''stub'') = Some ''live''
   \<and> pick [''OPENFINCLAW_FIN_EXPERT_MODE'' \<mapsto> ''  '', ''FIN_EXPERT_SDK_MODE'' \<mapsto> ''live'']
        [''OPENFINCLAW_FIN_EXPERT_MODE'', ''FIN_EXPERT_SDK_MODE''] (Some ''stub'') = Some ''live''
   \<and> pick Map.empty
        [''OPENFINCLAW_FIN_EXPERT_MODE'', ''FIN_EXPERT_SDK_MODE''] (Some ''stub'') = Some ''stub''"
proof -
  let ?env = "[''OPENFINCLAW_FIN_EXPERT_MODE'' \<mapsto> '' Live '', ''FIN_EXPERT_SDK_MODE'' \<mapsto> ''stub'',
      ''OPENFINCLAW_FIN_INFO_MODE'' \<mapsto> ''live'', ''FIN_INFO_FEED_MODE'' \<mapsto> ''stub'',
      ''OPENFINCLAW_FIN_EXPERT_API_KEY'' \<mapsto> ''new'', ''FIN_EXPERT_SDK_API_KEY'' \<mapsto> ''old'',
      ''OPENFINCLAW_FIN_EXPERT_ENDPOINT'' \<mapsto> ''https://new'', ''FIN_EXPERT_SDK_ENDPOINT'' \<mapsto> ''https://old'',
      ''OPENFINCLAW_FIN_INFO_API_KEY'' \<mapsto> ''new'', ''FIN_INFO_FEED_API_KEY'' \<mapsto> ''old'',
      ''OPENFINCLAW_FIN_INFO_ENDPOINT'' \<mapsto> ''https://new'', ''FIN_INFO_FEED_ENDPOINT'' \<mapsto> ''https://old'',
      ''OPENFINCLAW_FIN_MONITORING_AUTO_EVALUATE'' \<mapsto> ''off'', ''FIN_MONITORING_AUTO_EVALUATE'' \<mapsto> ''on'',
      ''OPENFINCLAW_FIN_MONITORING_POLL_INTERVAL_MS'' \<mapsto> ''20000'',
      ''FIN_MONITORING_POLL_INTERVAL_MS'' \<mapsto> ''10'']"
  let ?ns = "''OPENFINCLAW_FIN_EXPERT_MODE''" and ?legacy = "''FIN_EXPERT_SDK_MODE''"
  let ?first = "[?ns \<mapsto> ''live'', ?legacy \<mapsto> ''stub'']"
  let ?second = "[?ns \<mapsto> ''  '', ?legacy \<mapsto> ''live'']"
  have all: "stripped ?env ''OPENFINCLAW_FIN_EXPERT_MODE'' = ''Live''"
    "stripped ?env ''OPENFINCLAW_FIN_INFO_MODE'' = ''live''"
    "stripped ?env ''OPENFINCLAW_FIN_EXPERT_API_KEY'' = ''new''"
    "stripped ?env ''OPENFINCLAW_FIN_EXPERT_ENDPOINT'' = ''https://new''"
    "stripped ?env ''OPENFINCLAW_FIN_INFO_API_KEY'' = ''new''"
    "stripped ?env ''OPENFINCLAW_FIN_INFO_ENDPOINT'' = ''https://new''"
    "stripped ?env ''OPENFINCLAW_FIN_MONITORING_AUTO_EVALUATE'' = ''off''"
    "stripped ?env ''OPENFINCLAW_FIN_MONITORING_POLL_INTERVAL_MS'' = ''20000''"
    by (simp_all add: string_defs)
  have first: "stripped ?first ?ns = ''live''"
    and second: "stripped ?second ?ns = []" "stripped ?second ?legacy = ''live''"
    and none: "stripped Map.empty ?ns = []" "stripped Map.empty ?legacy = []"
    by (simp_all add: string_defs)
  have lower: "py_lower ''Live'' = ''live''"
    by (simp add: string_defs)
  have "expert_mode ?env = ''live''"
    using pick_first_nonblank_alias [where env = ?env]
    by (simp add: all lower del: pick.simps)
  moreover have "pick ?first [?ns, ?legacy] (Some ''stub'') = Some ''live''"
    using pick_first_nonblank_alias [where env = ?first and ns = ?ns and legacy = ?legacy
        and dflt = "Some ''stub''"]
    by (simp add: first del: pick.simps)
  moreover have "pick ?second [?ns, ?legacy] (Some ''stub'') = Some ''live''"
    using pick_first_nonblank_alias [where env = ?second and ns = ?ns and legacy = ?legacy
        and dflt = "Some ''stub''"]
    by (simp add: second del: pick.simps)
  moreover have "pick Map.empty [?ns, ?legacy] (Some ''stub'') = Some ''stub''"
    using pick_first_nonblank_alias [where env = Map.empty and ns = ?ns and legacy = ?legacy
        and dflt = "Some ''stub''"]
    by (simp add: none del: pick.simps)
  ultimately show ?thesis
    by simp
qed

section \<open>Results and errors of a run\<close>

text \<open>
  Claim C2. Whenever the validator returns, its error list is empty if and only if every
  check result it returns has \<open>ok\<close> true.
\<close>

theorem errors_empty_iff_all_ok:
  "run_checks chk env = Inr (results, errors) \<Longrightarrow>
     (errors = [] \<longleftrightarrow> (\<forall>r \<in> set results. ok r))"
  by (erule run_checks_Inr) (auto simp: results_of_def errors_of_def)

theorem errors_empty_iff_all_ok_witness:
  "run_checks accept_bracketed [''FIN_MONITORING_POLL_INTERVAL_MS'' \<mapsto> ''9999'']
     = Inr ([\<lparr>name = ''expert.mode'', ok = True, detail = ''stub''\<rparr>,
             \<lparr>name = ''info.mode'', ok = True, detail = ''stub''\<rparr>,
             \<lparr>name = ''expert.live_credentials'', ok = True, detail = ''stub mode''\<rparr>,
             \<lparr>name = ''info.live_credentials'', ok = True, detail = ''stub mode''\<rparr>,
             \<lparr>name = ''monitoring.poll_interval_ms'', ok = False,
               detail = ''9999 (autoEvaluate=true)''\<rparr>],
            [''Monitoring poll interval must be >= 10000 ms''])
   \<and> ([''Monitoring poll interval must be >= 10000 ms''] = []
        \<longleftrightarrow> list_all ok
             [\<lparr>name = ''expert.mode'', ok = True, detail = ''stub''\<rparr>,
              \<lparr>name = ''info.mode'', ok = True, detail = ''stub''\<rparr>,
              \<lparr>name = ''expert.live_credentials'', ok = True, detail = ''stub mode''\<rparr>,
              \<lparr>name = ''info.live_credentials'', ok = True, detail = ''stub mode''\<rparr>,
              \<lparr>name = ''monitoring.poll_interval_ms'', ok = False,
                detail = ''9999 (autoEvaluate=true)''\<rparr>])"
proof -
  let ?env = "[''FIN_MONITORING_POLL_INTERVAL_MS'' \<mapsto> ''9999'']"
  let ?rs = "[\<lparr>name = ''expert.mode'', ok = True, detail = ''stub''\<rparr>,
              \<lparr>name = ''info.mode'', ok = True, detail = ''stub''\<rparr>,
              \<lparr>name = ''expert.live_credentials'', ok = True, detail = ''stub mode''\<rparr>,
              \<lparr>name = ''info.live_credentials'', ok = True, detail = ''stub mode''\<rparr>,
              \<lparr>name = ''monitoring.poll_interval_ms'', ok = False,
                detail = ''9999 (autoEvaluate=true)''\<rparr>]"
  have run: "run_checks accept_bracketed ?env
      = Inr (?rs, [''Monitoring poll interval must be >= 10000 ms''])"
    by (simp add: check_defs setting_defs string_defs int_defs)
  from errors_empty_iff_all_ok [OF run] run show ?thesis
    by (simp add: list_all_iff)
qed

text \<open>
  Claim C10. Whenever the validator returns, its errors are the messages of the failing
  checks, one for each result with \<open>ok\<close> false and in the order of the results.
\<close>

theorem errors_follow_failing_checks:
  "run_checks chk env = Inr (results, errors) \<Longrightarrow>
     errors = map error_of_check (filter (\<lambda>r. \<not> ok r) results)
     \<and> length errors = length (filter (\<lambda>r. \<not> ok r) results)"
  by (erule run_checks_Inr) (simp add: results_of_def errors_of_def error_of_check_def)

theorem errors_follow_failing_checks_witness:
  "run_checks accept_bracketed
     [''FIN_EXPERT_SDK_MODE'' \<mapsto> ''production'', ''FIN_INFO_FEED_MODE'' \<mapsto> ''live'',
      ''FIN_MONITORING_POLL_INTERVAL_MS'' \<mapsto> ''9999'']
     = Inr ([\<lparr>name = ''expert.mode'', ok = False, detail = ''production''\<rparr>,
             \<lparr>name = ''info.mode'', ok = True, detail = ''live''\<rparr>,
             \<lparr>name = ''expert.live_credentials'', ok = True, detail = ''stub mode''\<rparr>,
             \<lparr>name = ''info.live_credentials'', ok = False,
               detail = ''apiKey+endpoint required in live mode''\<rparr>,
             \<lparr>name = ''monitoring.poll_interval_ms'', ok = False,
               detail = ''9999 (autoEvaluate=true)''\<rparr>],
            [''Invalid expert mode: production (expected stub/live)'',
             ''Info live mode requires FIN_INFO_FEED_API_KEY and FIN_INFO_FEED_ENDPOINT (valid URL)'',
             ''Monitoring poll interval must be >= 10000 ms''])
   \<and> [''Invalid expert mode: production (expected stub/live)'',
       ''Info live mode requires FIN_INFO_FEED_API_KEY and FIN_INFO_FEED_ENDPOINT (valid URL)'',
       ''Monitoring poll interval must be >= 10000 ms'']
      = map error_of_check
          [\<lparr>name = ''expert.mode'', ok = False, detail = ''production''\<rparr>,
           \<lparr>name = ''info.live_credentials'', ok = False,
             detail = ''apiKey+endpoint required in live mode''\<rparr>,
           \<lparr>name = ''monitoring.poll_interval_ms'', ok = False,
             detail = ''9999 (autoEvaluate=true)''\<rparr>]"
proof -
  let ?env = "[''FIN_EXPERT_SDK_MODE'' \<mapsto> ''production'', ''FIN_INFO_FEED_MODE'' \<mapsto> ''live'',
      ''FIN_MONITORING_POLL_INTERVAL_MS'' \<mapsto> ''9999'']"
  let ?rs = "[\<lparr>name = ''expert.mode'', ok = False, detail = ''production''\<rparr>,
             \<lparr>name = ''info.mode'', ok = True, detail = ''live''\<rparr>,
             \<lparr>name = ''expert.live_credentials'', ok = True, detail = ''stub mode''\<rparr>,
             \<lparr>name = ''info.live_credentials'', ok = False,
               detail = ''apiKey+endpoint required in live mode''\<rparr>,
             \<lparr>name = ''monitoring.poll_interval_ms'', ok = False,
               detail = ''9999 (autoEvaluate=true)''\<rparr>]"
  let ?es = "[''Invalid expert mode: production (expected stub/live)'',
             ''Info live mode requires FIN_INFO_FEED_API_KEY and FIN_INFO_FEED_ENDPOINT (valid URL)'',
             ''Monitoring poll interval must be >= 10000 ms'']"
  have run: "run_checks accept_bracketed ?env = Inr (?rs, ?es)"
    by (simp add: check_defs setting_defs string_defs int_defs)
  from errors_follow_failing_checks [OF run] run show ?thesis
    by simp
qed

text \<open>
  Claim C8. On the empty configuration both modes resolve to \<open>stub\<close>, both credentials
  checks pass in stub mode, the interval resolves to 300000 and passes with auto-evaluate
  true, every result has \<open>ok\<close> true and there is no error.
\<close>

theorem run_checks_empty_env:
  "expert_mode Map.empty = ''stub''
   \<and> info_mode Map.empty = ''stub''
   \<and> monitoring_poll Map.empty = 300000
   \<and> monitoring_enabled Map.empty = True
   \<and> run_checks chk Map.empty
       = Inr ([\<lparr>name = ''expert.mode'', ok = True, detail = ''stub''\<rparr>,
               \<lparr>name = ''info.mode'', ok = True, detail = ''stub''\<rparr>,
               \<lparr>name = ''expert.live_credentials'', ok = True, detail = ''stub mode''\<rparr>,
               \<lparr>name = ''info.live_credentials'', ok = True, detail = ''stub mode''\<rparr>,
               \<lparr>name = ''monitoring.poll_interval_ms'', ok = True,
                 detail = ''300000 (autoEvaluate=true)''\<rparr>],
              [])"
  by (simp add: check_defs setting_defs string_defs int_defs)

text \<open>
  Claim C7. When the resolved expert mode (the value found, trimmed and in lower case) is
  neither \<open>stub\<close> nor \<open>live\<close>, the first block of the validator records as its first
  result \<open>expert.mode\<close> with \<open>ok\<close> false and that value as its detail, and as its first
  error the message naming that value; a run that returns has that first result and holds
  that message once, as its first error. The same holds of the info mode, the second
  result and the info message.
\<close>

theorem invalid_mode_recorded:
  "(\<not> valid_mode (expert_mode env) \<longrightarrow>
      fst (check_modes env ([], [])) ! 0
        = \<lparr>name = ''expert.mode'', ok = False, detail = expert_mode env\<rparr>
      \<and> hd (snd (check_modes env ([], [])))
          = ''Invalid expert mode: '' @ expert_mode env @ '' (expected stub/live)'')
   \<and> (\<not> valid_mode (info_mode env) \<longrightarrow>
      fst (check_modes env ([], [])) ! 1
        = \<lparr>name = ''info.mode'', ok = False, detail = info_mode env\<rparr>
      \<and> last (snd (check_modes env ([], [])))
          = ''Invalid info mode: '' @ info_mode env @ '' (expected stub/live)'')
   \<and> (run_checks chk env = Inr (results, errors) \<and> \<not> valid_mode (expert_mode env) \<longrightarrow>
        results ! 0 = \<lparr>name = ''expert.mode'', ok = False, detail = expert_mode env\<rparr>
        \<and> hd errors = ''Invalid expert mode: '' @ expert_mode env @ '' (expected stub/live)''
        \<and> count_list errors
             (''Invalid expert mode: '' @ expert_mode env @ '' (expected stub/live)'') = 1)
   \<and> (run_checks chk env = Inr (results, errors) \<and> \<not> valid_mode (info_mode env) \<longrightarrow>
        results ! 1 = \<lparr>name = ''info.mode'', ok = False, detail = info_mode env\<rparr>
        \<and> count_list errors
             (''Invalid info mode: '' @ info_mode env @ '' (expected stub/live)'') = 1)"
proof -
  have block: "(\<not> valid_mode (expert_mode env) \<longrightarrow>
      fst (check_modes env ([], [])) ! 0
        = \<lparr>name = ''expert.mode'', ok = False, detail = expert_mode env\<rparr>
      \<and> hd (snd (check_modes env ([], [])))
          = ''Invalid expert mode: '' @ expert_mode env @ '' (expected stub/live)'')
   \<and> (\<not> valid_mode (info_mode env) \<longrightarrow>
      fst (check_modes env ([], [])) ! 1
        = \<lparr>name = ''info.mode'', ok = False, detail = info_mode env\<rparr>
      \<and> last (snd (check_modes env ([], [])))
          = ''Invalid info mode: '' @ info_mode env @ '' (expected stub/live)'')"
    by (simp add: check_modes_eq)
  have returned: "(\<not> valid_mode (expert_mode env) \<longrightarrow>
        results ! 0 = \<lparr>name = ''expert.mode'', ok = False, detail = expert_mode env\<rparr>
        \<and> hd errors = ''Invalid expert mode: '' @ expert_mode env @ '' (expected stub/live)''
        \<and> count_list errors
             (''Invalid expert mode: '' @ expert_mode env @ '' (expected stub/live)'') = 1)
     \<and> (\<not> valid_mode (info_mode env) \<longrightarrow>
        results ! 1 = \<lparr>name = ''info.mode'', ok = False, detail = info_mode env\<rparr>
        \<and> count_list errors
             (''Invalid info mode: '' @ info_mode env @ '' (expected stub/live)'') = 1)"
    if "run_checks chk env = Inr (results, errors)"
    using that by (rule run_checks_Inr) (simp add: results_of_def errors_of_def)
  from block returned show ?thesis
    by blast
qed

theorem invalid_mode_recorded_witness:
  "\<not> valid_mode (expert_mode [''FIN_EXPERT_SDK_MODE'' \<mapsto> ''production'',
                                ''OPENFINCLAW_FIN_INFO_MODE'' \<mapsto> ''Prod''])
   \<and> \<not> valid_mode (info_mode [''FIN_EXPERT_SDK_MODE'' \<mapsto> ''production'',
                                ''OPENFINCLAW_FIN_INFO_MODE'' \<mapsto> ''Prod''])
   \<and> run_checks accept_bracketed
       [''FIN_EXPERT_SDK_MODE'' \<mapsto> ''production'', ''OPENFINCLAW_FIN_INFO_MODE'' \<mapsto> ''Prod'']
       = Inr ([\<lparr>name = ''expert.mode'', ok = False, detail = ''production''\<rparr>,
               \<lparr>name = ''info.mode'', ok = False, detail = ''prod''\<rparr>,
               \<lparr>name = ''expert.live_credentials'', ok = True, detail = ''stub mode''\<rparr>,
               \<lparr>name = ''info.live_credentials'', ok = True, detail = ''stub mode''\<rparr>,
               \<lparr>name = ''monitoring.poll_interval_ms'', ok = True,
                 detail = ''300000 (autoEvaluate=true)''\<rparr>],
              [''Invalid expert mode: production (expected stub/live)'',
               ''Invalid info mode: prod (expected stub/live)''])
   \<and> count_list [''Invalid expert mode: production (expected stub/live)'',
                  ''Invalid info mode: prod (expected stub/live)'']
        ''Invalid expert mode: production (expected stub/live)'' = 1
   \<and> count_list [''Invalid expert mode: production (expected stub/live)'',
                  ''Invalid info mode: prod (expected stub/live)'']
        ''Invalid info mode: prod (expected stub/live)'' = 1"
proof -
  let ?env = "[''FIN_EXPERT_SDK_MODE'' \<mapsto> ''production'', ''OPENFINCLAW_FIN_INFO_MODE'' \<mapsto> ''Prod'']"
  let ?rs = "[\<lparr>name = ''expert.mode'', ok = False, detail = ''production''\<rparr>,
               \<lparr>name = ''info.mode'', ok = False, detail = ''prod''\<rparr>,
               \<lparr>name = ''expert.live_credentials'', ok = True, detail = ''stub mode''\<rparr>,
               \<lparr>name = ''info.live_credentials'', ok = True, detail = ''stub mode''\<rparr>,
               \<lparr>name = ''monitoring.poll_interval_ms'', ok = True,
                 detail = ''300000 (autoEvaluate=true)''\<rparr>]"
  let ?es = "[''Invalid expert mode: production (expected stub/live)'',
               ''Invalid info mode: prod (expected stub/live)'']"
  have em: "expert_mode ?env = ''production''"
    by (simp add: setting_defs string_defs)
  have im: "info_mode ?env = ''prod''"
    by (simp add: setting_defs string_defs)
  have run: "run_checks accept_bracketed ?env = Inr (?rs, ?es)"
    by (simp add: check_defs setting_defs string_defs int_defs)
  from invalid_mode_recorded [of ?env accept_bracketed ?rs ?es] run show ?thesis
    by (simp add: em im valid_mode_def)
qed

section \<open>The monitoring interval\<close>

lemma py_int_9999: "py_int (py_strip ''9999'') = Inr 9999"
  by (simp add: string_defs int_defs)

lemma py_int_10000: "py_int (py_strip ''10000'') = Inr 10000"
  by (simp add: string_defs int_defs)

text \<open>
  Claim C5. The interval is the integer the first non-blank alias parses to, and 300000
  when both aliases are blank or absent or the value does not parse. The last block of the
  validator appends the result \<open>monitoring.poll_interval_ms\<close>, whose \<open>ok\<close> is true
  exactly when the interval is at least 10000, and appends the monitoring message, and
  nothing else, exactly when the check fails. In a run that returns, that result is the
  fifth, and the error list holds the message once, as its last entry, when the check fails
  and not at all when it passes. A value that does not parse therefore passes and adds no
  error; the value 9999 fails and 10000 passes.
\<close>

theorem monitoring_poll_interval_check:
  "monitoring_poll env =
       (case pick env [''OPENFINCLAW_FIN_MONITORING_POLL_INTERVAL_MS'',
                       ''FIN_MONITORING_POLL_INTERVAL_MS''] None of
          None \<Rightarrow> 300000
        | Some r \<Rightarrow> (case py_int (py_strip r) of Inl e \<Rightarrow> 300000 | Inr v \<Rightarrow> v))
   \<and> check_monitoring env (rs, es)
       = (rs @ [\<lparr>name = ''monitoring.poll_interval_ms'', ok = (10000 \<le> monitoring_poll env),
                 detail = str_int (monitoring_poll env) @ '' (autoEvaluate=''
                          @ str_bool_lower (monitoring_enabled env) @ '')''\<rparr>],
          es @ (if 10000 \<le> monitoring_poll env then []
                else [''Monitoring poll interval must be >= 10000 ms'']))
   \<and> (run_checks chk env = Inr (results, errors) \<longrightarrow>
       length results = 5
     \<and> name (results ! 4) = ''monitoring.poll_interval_ms''
     \<and> ok (results ! 4) = (10000 \<le> monitoring_poll env)
     \<and> count_list errors ''Monitoring poll interval must be >= 10000 ms''
         = (if 10000 \<le> monitoring_poll env then 0 else 1)
     \<and> (\<not> 10000 \<le> monitoring_poll env \<longrightarrow>
          last errors = ''Monitoring poll interval must be >= 10000 ms'')
     \<and> ((\<exists>r. pick env [''OPENFINCLAW_FIN_MONITORING_POLL_INTERVAL_MS'',
                          ''FIN_MONITORING_POLL_INTERVAL_MS''] None = Some r
               \<and> py_int (py_strip r) = Inl ValueError) \<longrightarrow>
          ok (results ! 4)
          \<and> ''Monitoring poll interval must be >= 10000 ms'' \<notin> set errors)
     \<and> (pick env [''OPENFINCLAW_FIN_MONITORING_POLL_INTERVAL_MS'',
                   ''FIN_MONITORING_POLL_INTERVAL_MS''] None = Some ''9999'' \<longrightarrow>
          \<not> ok (results ! 4))
     \<and> (pick env [''OPENFINCLAW_FIN_MONITORING_POLL_INTERVAL_MS'',
                   ''FIN_MONITORING_POLL_INTERVAL_MS''] None = Some ''10000'' \<longrightarrow>
          ok (results ! 4)))"
proof (intro conjI impI)
  let ?p = "pick env [''OPENFINCLAW_FIN_MONITORING_POLL_INTERVAL_MS'',
                      ''FIN_MONITORING_POLL_INTERVAL_MS''] None"
  let ?msg = "''Monitoring poll interval must be >= 10000 ms''"
  show poll: "monitoring_poll env =
      (case ?p of None \<Rightarrow> 300000
       | Some r \<Rightarrow> (case py_int (py_strip r) of Inl e \<Rightarrow> 300000 | Inr v \<Rightarrow> v))"
    by (simp only: monitoring_poll_def parse_int_def)
  show "check_monitoring env (rs, es)
       = (rs @ [\<lparr>name = ''monitoring.poll_interval_ms'', ok = (10000 \<le> monitoring_poll env),
                 detail = str_int (monitoring_poll env) @ '' (autoEvaluate=''
                          @ str_bool_lower (monitoring_enabled env) @ '')''\<rparr>],
          es @ (if 10000 \<le> monitoring_poll env then [] else [?msg]))"
    by (rule check_monitoring_eq)
  assume run: "run_checks chk env = Inr (results, errors)"
  from run obtain ev iv where rs: "results = results_of env ev iv"
    and es: "errors = errors_of env ev iv"
    by (rule run_checks_Inr)
  show len: "length results = 5" and nm: "name (results ! 4) = ''monitoring.poll_interval_ms''"
    and okv: "ok (results ! 4) = (10000 \<le> monitoring_poll env)"
    by (simp_all add: rs results_of_def)
  show cnt: "count_list errors ?msg = (if 10000 \<le> monitoring_poll env then 0 else 1)"
    by (simp add: es errors_of_def)
  show "last errors = ?msg" if "\<not> 10000 \<le> monitoring_poll env"
    using that by (simp add: es errors_of_def)
  show "ok (results ! 4)" and "?msg \<notin> set errors"
    if "\<exists>r. ?p = Some r \<and> py_int (py_strip r) = Inl ValueError"
  proof -
    from that have "monitoring_poll env = 300000"
      by (auto simp: poll)
    then show "ok (results ! 4)" and "?msg \<notin> set errors"
      using cnt by (simp_all add: okv count_list_0_iff)
  qed
  show "\<not> ok (results ! 4)" if "?p = Some ''9999''"
    using that by (simp add: okv poll py_int_9999)
  show "ok (results ! 4)" if "?p = Some ''10000''"
    using that by (simp add: okv poll py_int_10000)
qed

theorem monitoring_poll_interval_check_witness:
  "run_checks accept_bracketed [''FIN_MONITORING_POLL_INTERVAL_MS'' \<mapsto> ''9999'']
     = Inr ([\<lparr>name = ''expert.mode'', ok = True, detail = ''stub''\<rparr>,
             \<lparr>name = ''info.mode'', ok = True, detail = ''stub''\<rparr>,
             \<lparr>name = ''expert.live_credentials'', ok = True, detail = ''stub mode''\<rparr>,
             \<lparr>name = ''info.live_credentials'', ok = True, detail = ''stub mode''\<rparr>,
             \<lparr>name = ''monitoring.poll_interval_ms'', ok = False,
               detail = ''9999 (autoEvaluate=true)''\<rparr>],
            [''Monitoring poll interval must be >= 10000 ms''])
   \<and> monitoring_poll [''FIN_MONITORING_POLL_INTERVAL_MS'' \<mapsto> ''9999''] = 9999
   \<and> run_checks accept_bracketed [''OPENFINCLAW_FIN_MONITORING_POLL_INTERVAL_MS'' \<mapsto> ''10000'']
     = Inr ([\<lparr>name = ''expert.mode'', ok = True, detail = ''stub''\<rparr>,
             \<lparr>name = ''info.mode'', ok = True, detail = ''stub''\<rparr>,
             \<lparr>name = ''expert.live_credentials'', ok = True, detail = ''stub mode''\<rparr>,
             \<lparr>name = ''info.live_credentials'', ok = True, detail = ''stub mode''\<rparr>,
             \<lparr>name = ''monitoring.poll_interval_ms'', ok = True,
               detail = ''10000 (autoEvaluate=true)''\<rparr>],
            [])
   \<and> monitoring_poll [''OPENFINCLAW_FIN_MONITORING_POLL_INTERVAL_MS'' \<mapsto> ''10000''] = 10000
   \<and> run_checks accept_bracketed [''FIN_MONITORING_POLL_INTERVAL_MS'' \<mapsto> ''ten seconds'']
     = Inr ([\<lparr>name = ''expert.mode'', ok = True, detail = ''stub''\<rparr>,
             \<lparr>name = ''info.mode'', ok = True, detail = ''stub''\<rparr>,
             \<lparr>name = ''expert.live_credentials'', ok = True, detail = ''stub mode''\<rparr>,
             \<lparr>name = ''info.live_credentials'', ok = True, detail = ''stub mode''\<rparr>,
             \<lparr>name = ''monitoring.poll_interval_ms'', ok = True,
               detail = ''300000 (autoEvaluate=true)''\<rparr>],
            [])
   \<and> py_int (py_strip ''ten seconds'') = Inl ValueError
   \<and> monitoring_poll [''FIN_MONITORING_POLL_INTERVAL_MS'' \<mapsto> ''ten seconds''] = 300000"
proof -
  let ?low = "[''FIN_MONITORING_POLL_INTERVAL_MS'' \<mapsto> ''9999'']"
  let ?high = "[''OPENFINCLAW_FIN_MONITORING_POLL_INTERVAL_MS'' \<mapsto> ''10000'']"
  let ?bad = "[''FIN_MONITORING_POLL_INTERVAL_MS'' \<mapsto> ''ten seconds'']"
  let ?keys = "[''OPENFINCLAW_FIN_MONITORING_POLL_INTERVAL_MS'', ''FIN_MONITORING_POLL_INTERVAL_MS'']"
  have run_low: "run_checks accept_bracketed ?low
     = Inr ([\<lparr>name = ''expert.mode'', ok = True, detail = ''stub''\<rparr>,
             \<lparr>name = ''info.mode'', ok = True, detail = ''stub''\<rparr>,
             \<lparr>name = ''expert.live_credentials'', ok = True, detail = ''stub mode''\<rparr>,
             \<lparr>name = ''info.live_credentials'', ok = True, detail = ''stub mode''\<rparr>,
             \<lparr>name = ''monitoring.poll_interval_ms'', ok = False,
               detail = ''9999 (autoEvaluate=true)''\<rparr>],
            [''Monitoring poll interval must be >= 10000 ms''])"
    by (simp add: check_defs setting_defs string_defs int_defs)
  have run_high: "run_checks accept_bracketed ?high
     = Inr ([\<lparr>name = ''expert.mode'', ok = True, detail = ''stub''\<rparr>,
             \<lparr>name = ''info.mode'', ok = True, detail = ''stub''\<rparr>,
             \<lparr>name = ''expert.live_credentials'', ok = True, detail = ''stub mode''\<rparr>,
             \<lparr>name = ''info.live_credentials'', ok = True, detail = ''stub mode''\<rparr>,
             \<lparr>name = ''monitoring.poll_interval_ms'', ok = True,
               detail = ''10000 (autoEvaluate=true)''\<rparr>],
            [])"
    by (simp add: check_defs setting_defs string_defs int_defs)
  have run_bad: "run_checks accept_bracketed ?bad
     = Inr ([\<lparr>name = ''expert.mode'', ok = True, detail = ''stub''\<rparr>,
             \<lparr>name = ''info.mode'', ok = True, detail = ''stub''\<rparr>,
             \<lparr>name = ''expert.live_credentials'', ok = True, detail = ''stub mode''\<rparr>,
             \<lparr>name = ''info.live_credentials'', ok = True, detail = ''stub mode''\<rparr>,
             \<lparr>name = ''monitoring.poll_interval_ms'', ok = True,
               detail = ''300000 (autoEvaluate=true)''\<rparr>],
            [])"
    by (simp add: check_defs setting_defs string_defs int_defs)
  have p_low: "pick ?low ?keys None = Some ''9999''"
    and p_high: "pick ?high ?keys None = Some ''10000''"
    and p_bad: "pick ?bad ?keys None = Some ''ten seconds''"
    by (simp_all add: string_defs)
  have unparsable: "py_int (py_strip ''ten seconds'') = Inl ValueError"
    by (simp add: string_defs int_defs)
  have "monitoring_poll ?low = 9999"
    using monitoring_poll_interval_check [where env = "?low"]
    by (simp add: p_low py_int_9999 del: pick.simps)
  moreover have "monitoring_poll ?high = 10000"
    using monitoring_poll_interval_check [where env = "?high"]
    by (simp add: p_high py_int_10000 del: pick.simps)
  moreover have "monitoring_poll ?bad = 300000"
    using monitoring_poll_interval_check [where env = "?bad"]
    by (simp add: p_bad unparsable del: pick.simps)
  ultimately show ?thesis
    using run_low run_high run_bad unparsable by simp
qed

section \<open>Valid endpoints\<close>

lemma scheme_char_plain:
  "scheme_char c \<Longrightarrow> c \<noteq> CHR '':'' \<and> c \<notin> {CHR 0x09, CHR 0x0D, CHR 0x0A}"
  by (auto simp: scheme_char_def ascii_alpha_def isdigit_def code_def)

lemma ascii_alpha_kept: "ascii_alpha c \<Longrightarrow> \<not> code c \<le> 32"
  unfolding ascii_alpha_def by linarith

lemma urlsplit_plain:
  assumes sch: "sch \<noteq> []" "ascii_alpha (hd sch)" "list_all scheme_char sch"
    and loc: "list_all authority_char loc"
  shows "urlsplit chk (sch @ ''://'' @ loc)
    = Inr \<lparr>scheme = py_lower sch, netloc = loc, path = [], query = [], fragment = []\<rparr>"
proof -
  let ?raw = "sch @ ''://'' @ loc"
  let ?keep = "\<lambda>c. c \<notin> {CHR 0x09, CHR 0x0D, CHR 0x0A}"
  from sch obtain a as where cons: "sch = a # as" and a: "ascii_alpha a"
    by (cases sch) auto
  have sc: "\<And>c. c \<in> set sch \<Longrightarrow> scheme_char c"
    using sch(3) by (simp add: list_all_iff)
  have lc: "\<And>c. c \<in> set loc \<Longrightarrow> authority_char c"
    using loc by (simp add: list_all_iff)
  have url0: "dropWhile (\<lambda>c. code c \<le> 32) ?raw = ?raw"
    using ascii_alpha_kept [OF a] by (simp add: cons)
  have url1: "filter ?keep ?raw = ?raw"
  proof -
    have "\<forall>c \<in> set ?raw. ?keep c"
      using scheme_char_plain [OF sc] lc by (auto simp: authority_char_def)
    then show ?thesis
      by (simp only: filter_id_conv)
  qed
  have pre: "takeWhile (\<lambda>c. c \<noteq> CHR '':'') ?raw = sch"
    using scheme_char_plain [OF sc] by (simp add: takeWhile_append2)
  have colon: "CHR '':'' \<in> set ?raw"
    by simp
  have rest: "drop (length sch + 1) ?raw = ''//'' @ loc"
    by simp
  have nobr: "CHR ''['' \<notin> set loc" "CHR '']'' \<notin> set loc"
    using lc by (auto simp: authority_char_def)
  have net: "splitnetloc (CHR ''/'' # CHR ''/'' # loc) 2 = (loc, [])"
    using lc by (auto simp: splitnetloc_def Let_def authority_char_def)
  show ?thesis
    unfolding urlsplit_def Let_def url0 url1 pre rest
    using sch nobr colon by (simp add: net split_rest_def)
qed

lemma valid_url_plain:
  assumes "sch \<noteq> []" "ascii_alpha (hd sch)" "list_all scheme_char sch"
    and "loc \<noteq> []" "list_all authority_char loc"
  shows "valid_url chk (sch @ ''://'' @ loc) = Inr True"
  using assms(1,4) urlsplit_plain [OF assms(1,2,3,5), of chk]
  by (simp add: valid_url_def urlparse_def py_lower_def)

lemma valid_url_not_a_url: "valid_url chk ''not-a-url'' = Inr False"
  by (simp add: url_defs string_defs)

text \<open>
  Claim C9. The predicate returns true exactly when the parser returns a result whose
  scheme and network location are both non-empty. Nothing else is asked of either part:
  every string of the form \<open>scheme://location\<close>, with any scheme name that starts with a
  letter and any non-empty location of plain characters, is valid. The string
  \<open>not-a-url\<close> is not valid, and in a run that returns with a mode \<open>live\<close> and that
  string as the endpoint, the credentials check of that mode fails with its error.
\<close>

theorem valid_url_iff_scheme_and_netloc:
  "(valid_url chk raw = Inr True
      \<longleftrightarrow> (\<exists>p. urlparse chk raw = Inr p \<and> scheme p \<noteq> [] \<and> netloc p \<noteq> []))
   \<and> (sch \<noteq> [] \<and> ascii_alpha (hd sch) \<and> list_all scheme_char sch
       \<and> loc \<noteq> [] \<and> list_all authority_char loc \<longrightarrow>
         valid_url chk (sch @ ''://'' @ loc) = Inr True)
   \<and> valid_url chk ''not-a-url'' = Inr False
   \<and> (run_checks chk env = Inr (results, errors) \<and> expert_mode env = ''live''
       \<and> expert_endpoint env = Some ''not-a-url'' \<longrightarrow>
         results ! 2 = \<lparr>name = ''expert.live_credentials'', ok = False,
                         detail = ''apiKey+endpoint required in live mode''\<rparr>
         \<and> ''Expert live mode requires FIN_EXPERT_SDK_API_KEY and FIN_EXPERT_SDK_ENDPOINT (valid URL)''
             \<in> set errors)
   \<and> (run_checks chk env = Inr (results, errors) \<and> info_mode env = ''live''
       \<and> info_endpoint env = Some ''not-a-url'' \<longrightarrow>
         results ! 3 = \<lparr>name = ''info.live_credentials'', ok = False,
                         detail = ''apiKey+endpoint required in live mode''\<rparr>
         \<and> ''Info live mode requires FIN_INFO_FEED_API_KEY and FIN_INFO_FEED_ENDPOINT (valid URL)''
             \<in> set errors)"
proof -
  have iff: "valid_url chk raw = Inr True
      \<longleftrightarrow> (\<exists>p. urlparse chk raw = Inr p \<and> scheme p \<noteq> [] \<and> netloc p \<noteq> [])"
    by (auto simp: valid_url_def split: sum.splits)
  have plain: "sch \<noteq> [] \<and> ascii_alpha (hd sch) \<and> list_all scheme_char sch
       \<and> loc \<noteq> [] \<and> list_all authority_char loc \<longrightarrow>
         valid_url chk (sch @ ''://'' @ loc) = Inr True"
    using valid_url_plain [of sch loc chk] by blast
  have cred: "credentials_ok chk key (Some ''not-a-url'') = Inr False" for key
    by (simp add: credentials_ok_def valid_url_not_a_url)
  have expert: "run_checks chk env = Inr (results, errors) \<and> expert_mode env = ''live''
       \<and> expert_endpoint env = Some ''not-a-url'' \<longrightarrow>
         results ! 2 = \<lparr>name = ''expert.live_credentials'', ok = False,
                         detail = ''apiKey+endpoint required in live mode''\<rparr>
         \<and> ''Expert live mode requires FIN_EXPERT_SDK_API_KEY and FIN_EXPERT_SDK_ENDPOINT (valid URL)''
             \<in> set errors"
  proof (intro impI, elim conjE)
    assume run: "run_checks chk env = Inr (results, errors)"
      and live: "expert_mode env = ''live''"
      and ep: "expert_endpoint env = Some ''not-a-url''"
    from run obtain ev iv where e: "expert_credentials chk env = Inr ev"
      and rs: "results = results_of env ev iv" and es: "errors = errors_of env ev iv"
      by (rule run_checks_Inr)
    from e live ep have "ev = False"
      by (simp add: expert_credentials_def cred)
    then show "results ! 2 = \<lparr>name = ''expert.live_credentials'', ok = False,
                         detail = ''apiKey+endpoint required in live mode''\<rparr>
         \<and> ''Expert live mode requires FIN_EXPERT_SDK_API_KEY and FIN_EXPERT_SDK_ENDPOINT (valid URL)''
             \<in> set errors"
      by (simp add: rs es results_of_def errors_of_def credentials_detail_def live)
  qed
  have info: "run_checks chk env = Inr (results, errors) \<and> info_mode env = ''live''
       \<and> info_endpoint env = Some ''not-a-url'' \<longrightarrow>
         results ! 3 = \<lparr>name = ''info.live_credentials'', ok = False,
                         detail = ''apiKey+endpoint required in live mode''\<rparr>
         \<and> ''Info live mode requires FIN_INFO_FEED_API_KEY and FIN_INFO_FEED_ENDPOINT (valid URL)''
             \<in> set errors"
  proof (intro impI, elim conjE)
    assume run: "run_checks chk env = Inr (results, errors)"
      and live: "info_mode env = ''live''"
      and ep: "info_endpoint env = Some ''not-a-url''"
    from run obtain ev iv where i: "info_credentials chk env = Inr iv"
      and rs: "results = results_of env ev iv" and es: "errors = errors_of env ev iv"
      by (rule run_checks_Inr)
    from i live ep have "iv = False"
      by (simp add: info_credentials_def cred)
    then show "results ! 3 = \<lparr>name = ''info.live_credentials'', ok = False,
                         detail = ''apiKey+endpoint required in live mode''\<rparr>
         \<and> ''Info live mode requires FIN_INFO_FEED_API_KEY and FIN_INFO_FEED_ENDPOINT (valid URL)''
             \<in> set errors"
      by (simp add: rs es results_of_def errors_of_def credentials_detail_def live)
  qed
  from iff plain valid_url_not_a_url expert info show ?thesis
    by blast
qed

theorem valid_url_iff_scheme_and_netloc_witness:
  "valid_url accept_bracketed ''https://api.example.com'' = Inr True
   \<and> urlparse accept_bracketed ''https://api.example.com''
       = Inr \<lparr>scheme = ''https'', netloc = ''api.example.com'', path = [], query = [],
               fragment = [], params = []\<rparr>
   \<and> valid_url accept_bracketed (''foo'' @ ''://'' @ ''bar'') = Inr True
   \<and> run_checks accept_bracketed
       [''OPENFINCLAW_FIN_EXPERT_MODE'' \<mapsto> ''live'',
        ''OPENFINCLAW_FIN_EXPERT_API_KEY'' \<mapsto> ''k'',
        ''OPENFINCLAW_FIN_EXPERT_ENDPOINT'' \<mapsto> ''not-a-url'',
        ''FIN_INFO_FEED_MODE'' \<mapsto> ''live'',
        ''FIN_INFO_FEED_API_KEY'' \<mapsto> ''k'',
        ''FIN_INFO_FEED_ENDPOINT'' \<mapsto> ''not-a-url'']
       = Inr ([\<lparr>name = ''expert.mode'', ok = True, detail = ''live''\<rparr>,
               \<lparr>name = ''info.mode'', ok = True, detail = ''live''\<rparr>,
               \<lparr>name = ''expert.live_credentials'', ok = False,
                 detail = ''apiKey+endpoint required in live mode''\<rparr>,
               \<lparr>name = ''info.live_credentials'', ok = False,
                 detail = ''apiKey+endpoint required in live mode''\<rparr>,
               \<lparr>name = ''monitoring.poll_interval_ms'', ok = True,
                 detail = ''300000 (autoEvaluate=true)''\<rparr>],
              [''Expert live mode requires FIN_EXPERT_SDK_API_KEY and FIN_EXPERT_SDK_ENDPOINT (valid URL)'',
               ''Info live mode requires FIN_INFO_FEED_API_KEY and FIN_INFO_FEED_ENDPOINT (valid URL)''])"
proof -
  let ?env = "[''OPENFINCLAW_FIN_EXPERT_MODE'' \<mapsto> ''live'',
        ''OPENFINCLAW_FIN_EXPERT_API_KEY'' \<mapsto> ''k'',
        ''OPENFINCLAW_FIN_EXPERT_ENDPOINT'' \<mapsto> ''not-a-url'',
        ''FIN_INFO_FEED_MODE'' \<mapsto> ''live'',
        ''FIN_INFO_FEED_API_KEY'' \<mapsto> ''k'',
        ''FIN_INFO_FEED_ENDPOINT'' \<mapsto> ''not-a-url'']"
  let ?rs = "[\<lparr>name = ''expert.mode'', ok = True, detail = ''live''\<rparr>,
               \<lparr>name = ''info.mode'', ok = True, detail = ''live''\<rparr>,
               \<lparr>name = ''expert.live_credentials'', ok = False,
                 detail = ''apiKey+endpoint required in live mode''\<rparr>,
               \<lparr>name = ''info.live_credentials'', ok = False,
                 detail = ''apiKey+endpoint required in live mode''\<rparr>,
               \<lparr>name = ''monitoring.poll_interval_ms'', ok = True,
                 detail = ''300000 (autoEvaluate=true)''\<rparr>]"
  let ?es = "[''Expert live mode requires FIN_EXPERT_SDK_API_KEY and FIN_EXPERT_SDK_ENDPOINT (valid URL)'',
               ''Info live mode requires FIN_INFO_FEED_API_KEY and FIN_INFO_FEED_ENDPOINT (valid URL)'']"
  have parsed: "urlparse accept_bracketed ''https://api.example.com''
       = Inr \<lparr>scheme = ''https'', netloc = ''api.example.com'', path = [], query = [],
               fragment = [], params = []\<rparr>"
    by (simp add: url_defs string_defs)
  have run: "run_checks accept_bracketed ?env = Inr (?rs, ?es)"
    by (simp add: check_defs setting_defs string_defs int_defs url_defs)
  have modes: "expert_mode ?env = ''live''" "info_mode ?env = ''live''"
    by (simp_all add: setting_defs string_defs)
  have endpoints: "expert_endpoint ?env = Some ''not-a-url''"
    "info_endpoint ?env = Some ''not-a-url''"
    by (simp_all add: setting_defs string_defs)
  have chars: "ascii_alpha (hd ''foo'')" "list_all scheme_char ''foo''"
    "list_all authority_char ''bar''"
    by (simp_all add: ascii_alpha_def scheme_char_def authority_char_def code_def)
  note inst = valid_url_iff_scheme_and_netloc [where chk = accept_bracketed
      and raw = "''https://api.example.com''" and sch = "''foo''" and loc = "''bar''"
      and env = ?env and results = ?rs and errors = ?es]
  from inst have "valid_url accept_bracketed ''https://api.example.com'' = Inr True"
    using parsed by simp
  moreover from inst have "valid_url accept_bracketed (''foo'' @ ''://'' @ ''bar'') = Inr True"
    using chars by simp
  ultimately show ?thesis
    using parsed run by simp
qed

section \<open>Endpoints on which the parser raises\<close>

text \<open>
  In a run that returns, the two credentials results are as follows: in live mode the
  check passes exactly when key and endpoint are there and the endpoint is valid, and its
  error is recorded when it fails; outside live mode it passes as \<open>stub mode\<close> without
  an error.
\<close>

lemma credentials_results_when_returned:
  assumes "run_checks chk env = Inr (results, errors)"
  shows "expert_mode env = ''live'' \<Longrightarrow>
           ok (results ! 2) = (credentials_ok chk (expert_key env) (expert_endpoint env) = Inr True)"
    and "expert_mode env = ''live'' \<Longrightarrow> \<not> ok (results ! 2) \<Longrightarrow>
           ''Expert live mode requires FIN_EXPERT_SDK_API_KEY and FIN_EXPERT_SDK_ENDPOINT (valid URL)''
             \<in> set errors"
    and "expert_mode env \<noteq> ''live'' \<Longrightarrow>
           results ! 2 = \<lparr>name = ''expert.live_credentials'', ok = True, detail = ''stub mode''\<rparr>
           \<and> ''Expert live mode requires FIN_EXPERT_SDK_API_KEY and FIN_EXPERT_SDK_ENDPOINT (valid URL)''
               \<notin> set errors"
    and "info_mode env = ''live'' \<Longrightarrow>
           ok (results ! 3) = (credentials_ok chk (info_key env) (info_endpoint env) = Inr True)"
    and "info_mode env = ''live'' \<Longrightarrow> \<not> ok (results ! 3) \<Longrightarrow>
           ''Info live mode requires FIN_INFO_FEED_API_KEY and FIN_INFO_FEED_ENDPOINT (valid URL)''
             \<in> set errors"
    and "info_mode env \<noteq> ''live'' \<Longrightarrow>
           results ! 3 = \<lparr>name = ''info.live_credentials'', ok = True, detail = ''stub mode''\<rparr>
           \<and> ''Info live mode requires FIN_INFO_FEED_API_KEY and FIN_INFO_FEED_ENDPOINT (valid URL)''
               \<notin> set errors"
proof -
  from assms obtain ev iv where e: "expert_credentials chk env = Inr ev"
    and i: "info_credentials chk env = Inr iv"
    and rs: "results = results_of env ev iv" and es: "errors = errors_of env ev iv"
    by (rule run_checks_Inr)
  show "expert_mode env = ''live'' \<Longrightarrow>
      ok (results ! 2) = (credentials_ok chk (expert_key env) (expert_endpoint env) = Inr True)"
    using e by (simp add: rs results_of_def expert_credentials_def)
  show "expert_mode env = ''live'' \<Longrightarrow> \<not> ok (results ! 2) \<Longrightarrow>
      ''Expert live mode requires FIN_EXPERT_SDK_API_KEY and FIN_EXPERT_SDK_ENDPOINT (valid URL)''
        \<in> set errors"
    by (simp add: rs es results_of_def errors_of_def)
  show "expert_mode env \<noteq> ''live'' \<Longrightarrow>
      results ! 2 = \<lparr>name = ''expert.live_credentials'', ok = True, detail = ''stub mode''\<rparr>
      \<and> ''Expert live mode requires FIN_EXPERT_SDK_API_KEY and FIN_EXPERT_SDK_ENDPOINT (valid URL)''
          \<notin> set errors"
    using e
    by (simp add: rs es results_of_def errors_of_def expert_credentials_def credentials_detail_def)
  show "info_mode env = ''live'' \<Longrightarrow>
      ok (results ! 3) = (credentials_ok chk (info_key env) (info_endpoint env) = Inr True)"
    using i by (simp add: rs results_of_def info_credentials_def)
  show "info_mode env = ''live'' \<Longrightarrow> \<not> ok (results ! 3) \<Longrightarrow>
      ''Info live mode requires FIN_INFO_FEED_API_KEY and FIN_INFO_FEED_ENDPOINT (valid URL)''
        \<in> set errors"
    by (simp add: rs es results_of_def errors_of_def)
  show "info_mode env \<noteq> ''live'' \<Longrightarrow>
      results ! 3 = \<lparr>name = ''info.live_credentials'', ok = True, detail = ''stub mode''\<rparr>
      \<and> ''Info live mode requires FIN_INFO_FEED_API_KEY and FIN_INFO_FEED_ENDPOINT (valid URL)''
          \<notin> set errors"
    using i
    by (simp add: rs es results_of_def errors_of_def info_credentials_def credentials_detail_def)
qed

text \<open>
  An endpoint whose network location holds one bracket without the other makes the parser
  raise, whatever the check of bracketed hosts does.
\<close>

lemma valid_url_unmatched_bracket:
  "valid_url chk ''http://['' = Inl ValueError"
  "valid_url chk ''https://[::1'' = Inl ValueError"
  "valid_url chk ''http://]'' = Inl ValueError"
  "valid_url chk ''https://feed.example.com]'' = Inl ValueError"
  by (simp_all add: url_defs string_defs)

text \<open>
  Claim C4. No exception is to leave the validator: every invalid input is to become a
  failed check and an error message. The code departs from this. In live mode with a key
  and the endpoint \<open>http://[\<close>, the \<open>ValueError\<close> of the URL parser leaves
  \<^const>\<open>valid_url\<close>, which does not catch it, and then the validator; no result and no
  error is returned for the invalid endpoint.
\<close>

theorem run_checks_raises_ValueError:
  "run_checks chk [''FIN_EXPERT_SDK_MODE'' \<mapsto> ''live'', ''FIN_EXPERT_SDK_API_KEY'' \<mapsto> ''k'',
                   ''FIN_EXPERT_SDK_ENDPOINT'' \<mapsto> ''http://['']
     = Inl ValueError"
  by (simp add: check_defs setting_defs string_defs valid_url_unmatched_bracket)

text \<open>
  Claim C1. For every configuration the validator is to return five results, named
  \<open>expert.mode\<close>, \<open>info.mode\<close>, \<open>expert.live_credentials\<close>,
  \<open>info.live_credentials\<close> and \<open>monitoring.poll_interval_ms\<close> in this order. Every run
  that returns has them (lemma \<open>run_checks_names\<close>), but not every run returns: on a
  configuration in live mode whose endpoint lacks the closing bracket of an IPv6 host the
  validator raises after the second check, and the last three checks are never recorded.
\<close>

theorem run_checks_no_results_on_unclosed_bracket:
  "run_checks chk [''OPENFINCLAW_FIN_EXPERT_MODE'' \<mapsto> ''live'',
                   ''OPENFINCLAW_FIN_EXPERT_API_KEY'' \<mapsto> ''secret'',
                   ''OPENFINCLAW_FIN_EXPERT_ENDPOINT'' \<mapsto> ''https://[::1'']
     = Inl ValueError"
  by (simp add: check_defs setting_defs string_defs valid_url_unmatched_bracket)

text \<open>
  Claim C3. In live mode a credentials check is to pass exactly when key and endpoint are
  there and the endpoint is a valid URL, and to record its error when it fails; outside
  live mode it is to pass as \<open>stub mode\<close>. Every run that returns does so
  (lemma \<open>credentials_results_when_returned\<close>). With a key and an endpoint that is not
  a valid URL because of a stray bracket, however, neither check records a failing result
  and its error: the expert check raises on \<open>http://]\<close>, the info check on
  \<open>https://feed.example.com]\<close>.
\<close>

theorem credentials_check_raises_on_stray_bracket:
  "run_checks chk [''FIN_EXPERT_SDK_MODE'' \<mapsto> ''live'', ''FIN_EXPERT_SDK_API_KEY'' \<mapsto> ''k'',
                   ''FIN_EXPERT_SDK_ENDPOINT'' \<mapsto> ''http://]'']
     = Inl ValueError
   \<and> run_checks chk [''FIN_INFO_FEED_MODE'' \<mapsto> ''live'', ''FIN_INFO_FEED_API_KEY'' \<mapsto> ''k'',
                     ''FIN_INFO_FEED_ENDPOINT'' \<mapsto> ''https://feed.example.com]'']
     = Inl ValueError"
  by (simp add: check_defs setting_defs string_defs valid_url_unmatched_bracket)

end
